theory Spec2Isabelle
  imports Main "HOL-Library.Sublist"
begin

section \<open>Characters and strings of the message text\<close>

text \<open>
  The routing code of \<^verbatim>\<open>smart_support_bot.py\<close> works on Python \<^verbatim>\<open>str\<close> values.
  A message is modelled as a \<^typ>\<open>string\<close> whose characters are ASCII code points:
  \<^verbatim>\<open>str.lower\<close>, \<^verbatim>\<open>str.upper\<close>, \<^verbatim>\<open>str.split\<close> and the regular-expression classes
  \<^verbatim>\<open>\w\<close>, \<^verbatim>\<open>\d\<close> and \<^verbatim>\<open>\b\<close> are given with their meaning on ASCII text. Code points from
  128 on are kept as they are and count as neither letters, digits nor white space.
\<close>

definition code :: "char \<Rightarrow> nat" where
  "code c = of_char c"

definition is_upper :: "char \<Rightarrow> bool" where
  "is_upper c = (65 \<le> code c \<and> code c \<le> 90)"

definition is_lower :: "char \<Rightarrow> bool" where
  "is_lower c = (97 \<le> code c \<and> code c \<le> 122)"

definition is_digit :: "char \<Rightarrow> bool" where
  "is_digit c = (48 \<le> code c \<and> code c \<le> 57)"

text \<open>The class \<^verbatim>\<open>\w\<close>: letters, digits and the underscore.\<close>

definition is_word :: "char \<Rightarrow> bool" where
  "is_word c = (is_upper c \<or> is_lower c \<or> is_digit c \<or> code c = 95)"

text \<open>
  White space as \<^verbatim>\<open>str.split()\<close> sees it on ASCII text: tab, line feed, vertical tab,
  form feed, carriage return, the four separators \<^verbatim>\<open>\x1c\<close> to \<^verbatim>\<open>\x1f\<close>, and the space.
\<close>

definition py_isspace :: "char \<Rightarrow> bool" where
  "py_isspace c = ((9 \<le> code c \<and> code c \<le> 13) \<or> (28 \<le> code c \<and> code c \<le> 32))"

definition lower_char :: "char \<Rightarrow> char" where
  "lower_char c = (if is_upper c then char_of (code c + 32) else c)"

definition upper_char :: "char \<Rightarrow> char" where
  "upper_char c = (if is_lower c then char_of (code c - 32) else c)"

definition lower :: "string \<Rightarrow> string" where
  "lower s = map lower_char s"

definition upper :: "string \<Rightarrow> string" where
  "upper s = map upper_char s"

text \<open>The test \<^verbatim>\<open>k in t\<close> on strings: \<open>k\<close> occurs in \<open>t\<close> as a contiguous piece.\<close>

fun py_in :: "string \<Rightarrow> string \<Rightarrow> bool" where
  "py_in k [] = (k = [])"
| "py_in k (c # cs) = (prefix k (c # cs) \<or> py_in k cs)"

text \<open>
  \<^verbatim>\<open>str.split()\<close> without arguments: the maximal runs of characters that are not white
  space. \<open>split_acc\<close> carries the word read so far.
\<close>

fun split_acc :: "string \<Rightarrow> string \<Rightarrow> string list" where
  "split_acc cur [] = (if cur = [] then [] else [cur])"
| "split_acc cur (c # cs) =
     (if py_isspace c then (if cur = [] then split_acc [] cs else cur # split_acc [] cs)
      else split_acc (cur @ [c]) cs)"

definition py_split :: "string \<Rightarrow> string list" where
  "py_split s = split_acc [] s"

section \<open>Regular expressions of the source\<close>

text \<open>
  \<^verbatim>\<open>\b\<close> holds between a \<^verbatim>\<open>\w\<close> character and a character that is not one, where the
  start and the end of the text count as not one. \<open>prev\<close> is the character before the
  position (\<open>None\<close> at the start) and the list is the text from the position on.
\<close>

definition word_before :: "char option \<Rightarrow> bool" where
  "word_before prev = (case prev of None \<Rightarrow> False | Some c \<Rightarrow> is_word c)"

definition word_after :: "string \<Rightarrow> bool" where
  "word_after s = (case s of [] \<Rightarrow> False | c # _ \<Rightarrow> is_word c)"

definition word_boundary :: "char option \<Rightarrow> string \<Rightarrow> bool" where
  "word_boundary prev s = (word_before prev \<noteq> word_after s)"

text \<open>
  The sentiment patterns all have the shape \<^verbatim>\<open>\b(alt|alt|...)\b\<close>, an alternative being
  a sequence of literal characters and optional literal characters (\<^verbatim>\<open>\*?\<close>).
\<close>

datatype tok = Lit char | Opt char

definition lit :: "string \<Rightarrow> tok list" where
  "lit s = map Lit s"

text \<open>
  \<open>match_alt ts prev s\<close>: the alternative \<open>ts\<close> matches a prefix of \<open>s\<close> and the closing
  \<^verbatim>\<open>\b\<close> holds after it. An optional character is tried taken first, then skipped.
\<close>

fun match_alt :: "tok list \<Rightarrow> char option \<Rightarrow> string \<Rightarrow> bool" where
  "match_alt [] prev s = word_boundary prev s"
| "match_alt (Lit c # ts) prev [] = False"
| "match_alt (Lit c # ts) prev (x # xs) = (x = c \<and> match_alt ts (Some x) xs)"
| "match_alt (Opt c # ts) prev [] = match_alt ts prev []"
| "match_alt (Opt c # ts) prev (x # xs) =
     ((x = c \<and> match_alt ts (Some x) xs) \<or> match_alt ts prev (x # xs))"

definition match_here :: "tok list list \<Rightarrow> char option \<Rightarrow> string \<Rightarrow> bool" where
  "match_here alts prev s = (word_boundary prev s \<and> list_ex (\<lambda>ts. match_alt ts prev s) alts)"

text \<open>\<^verbatim>\<open>re.search\<close>: a match at some position of the text, tried from left to right.\<close>

fun re_search :: "tok list list \<Rightarrow> char option \<Rightarrow> string \<Rightarrow> bool" where
  "re_search alts prev [] = match_here alts prev []"
| "re_search alts prev (c # cs) = (match_here alts prev (c # cs) \<or> re_search alts (Some c) cs)"

text \<open>
  The order pattern \<^verbatim>\<open>\bORD[- ]?(\d{3,6})\b\<close>. \<open>try_digits k s\<close> takes exactly \<open>k\<close> digits and
  checks the closing \<^verbatim>\<open>\b\<close>; \<open>match_digits\<close> tries 6, 5, 4 and 3 digits in this order, as
  the greedy \<^verbatim>\<open>{3,6}\<close> does when it backtracks. The result is group 1, the digits.
\<close>

definition try_digits :: "nat \<Rightarrow> string \<Rightarrow> string option" where
  "try_digits k s =
     (if k \<le> length s \<and> list_all is_digit (take k s)
         \<and> word_boundary (Some (last (take k s))) (drop k s)
      then Some (take k s) else None)"

fun first_some :: "'a option list \<Rightarrow> 'a option" where
  "first_some [] = None"
| "first_some (None # xs) = first_some xs"
| "first_some (Some x # xs) = Some x"

definition match_digits :: "string \<Rightarrow> string option" where
  "match_digits s = first_some [try_digits 6 s, try_digits 5 s, try_digits 4 s, try_digits 3 s]"

definition is_sep :: "char \<Rightarrow> bool" where
  "is_sep c = (c = CHR ''-'' \<or> c = CHR '' '')"

text \<open>The optional separator \<^verbatim>\<open>[- ]?\<close> is tried taken first, then skipped.\<close>

definition match_sep_digits :: "string \<Rightarrow> string option" where
  "match_sep_digits r =
     (case r of
        [] \<Rightarrow> match_digits []
      | c # cs \<Rightarrow> first_some [if is_sep c then match_digits cs else None, match_digits (c # cs)])"

definition match_ord :: "char option \<Rightarrow> string \<Rightarrow> string option" where
  "match_ord prev s =
     (if word_boundary prev s \<and> prefix ''ORD'' s then match_sep_digits (drop 3 s) else None)"

fun search_ord :: "char option \<Rightarrow> string \<Rightarrow> string option" where
  "search_ord prev [] = match_ord prev []"
| "search_ord prev (c # cs) =
     (case match_ord prev (c # cs) of Some d \<Rightarrow> Some d | None \<Rightarrow> search_ord (Some c) cs)"

section \<open>Datastore and pattern tables\<close>

definition FAQS :: "(string \<times> string) list" where
  "FAQS =
   [(''return policy'', ''You can return unopened items within 30 days for a full refund.''),
    (''shipping time'',
       ''Standard shipping takes 3'' @ [CHR 0xE2, CHR 0x80, CHR 0x93] @
       ''5 business days. Expedited options are available.''),
    (''warranty'',
       ''All electronics include a 1-year limited warranty covering manufacturing defects.'')]"

definition OFFENSIVE_PATTERNS :: "tok list list list" where
  "OFFENSIVE_PATTERNS =
   [[lit ''dumb'', lit ''stupid'', lit ''idiot'', lit ''shut up'', lit ''hate'', lit ''useless''],
    [Lit CHR ''f'' # Opt CHR ''*'' # lit ''ck'',
     Lit CHR ''s'' # Opt CHR ''*'' # lit ''it'',
     Lit CHR ''b'' # Opt CHR ''*'' # lit ''tch'',
     Lit CHR ''a'' # Opt CHR ''*'' # lit ''shole'']]"

definition NEGATIVE_SENTIMENT_PATTERNS :: "tok list list list" where
  "NEGATIVE_SENTIMENT_PATTERNS =
   [[lit ''angry'', lit ''furious'', lit ''terrible'', lit ''awful'', lit ''worst'', lit ''hate'',
     lit ''refund now''],
    [lit ''complain'', lit ''complaint'', lit ''speak to manager'', lit ''not happy'',
     lit ''disappointed'']]"

section \<open>Intent and sentiment detection\<close>

definition is_order_intent :: "string \<Rightarrow> bool" where
  "is_order_intent text =
     (let t = lower text in py_in ''order'' t \<or> py_in ''track'' t \<or> py_in ''status'' t)"

definition extract_order_id :: "string \<Rightarrow> string option" where
  "extract_order_id text =
     (case search_ord None (upper text) of
        Some num \<Rightarrow> Some (''ORD-'' @ num)
      | None \<Rightarrow> None)"

definition is_negative_or_offensive :: "string \<Rightarrow> bool" where
  "is_negative_or_offensive text =
     (let t = lower text
      in list_ex (\<lambda>pat. re_search pat None t) (OFFENSIVE_PATTERNS @ NEGATIVE_SENTIMENT_PATTERNS))"

text \<open>The loop of \<^verbatim>\<open>match_faq\<close> over the table in its insertion order.\<close>

fun faq_loop :: "(string \<times> string) list \<Rightarrow> string \<Rightarrow> string option" where
  "faq_loop [] t = None"
| "faq_loop ((k, v) # kvs) t = (if py_in k t then Some v else faq_loop kvs t)"

definition match_faq :: "string \<Rightarrow> string option" where
  "match_faq text = faq_loop FAQS (lower text)"

section \<open>Capability gate of the order tool\<close>

text \<open>
  A context is the dictionary \<^verbatim>\<open>{"last_user_message": ..., "customer_id": ...}\<close>; both
  values are strings in every context the program builds. \<open>ctx_get\<close> is \<^verbatim>\<open>dict.get\<close> with
  its default.
\<close>

type_synonym tool_context = "(string \<times> string) list"

definition ctx_get :: "tool_context \<Rightarrow> string \<Rightarrow> string \<Rightarrow> string" where
  "ctx_get ctx k dflt = (case map_of ctx k of Some v \<Rightarrow> v | None \<Rightarrow> dflt)"

definition order_tool_enabled :: "tool_context \<Rightarrow> bool" where
  "order_tool_enabled ctx = is_order_intent (ctx_get ctx ''last_user_message'' [])"

section \<open>Model settings, metadata and outcomes\<close>

datatype pyval = PStr string | PInt int | PBool bool | PNone

text \<open>
  A metadata dictionary keeps its insertion order. \<open>dict_set\<close> is \<^verbatim>\<open>d[k] = v\<close>: an existing
  key keeps its place and takes the new value, a new key goes to the end.
\<close>

type_synonym pydict = "(string \<times> pyval) list"

fun dict_set :: "pydict \<Rightarrow> string \<Rightarrow> pyval \<Rightarrow> pydict" where
  "dict_set [] k v = [(k, v)]"
| "dict_set ((k', v') # d) k v = (if k' = k then (k, v) # d else (k', v') # dict_set d k v)"

record ModelSettings =
  tool_choice :: string
  metadata :: "pydict option"

datatype agent = HumanAgent | BotAgent

text \<open>
  What \<^verbatim>\<open>handle_user_message\<close> returns: a \<^verbatim>\<open>Handoff\<close> object (target, reason, context), a
  plain string, or the result of \<^verbatim>\<open>bot_agent.run\<close>. The agent call leaves the program, so
  the model records the call itself: prompt, context, and the \<^verbatim>\<open>tool_choice\<close> and
  \<^verbatim>\<open>metadata\<close> entries of the settings passed along.
\<close>

datatype outcome =
    Handoff agent string tool_context
  | Reply string
  | AgentRun string tool_context string pydict

definition truthy :: "string option \<Rightarrow> bool" where
  "truthy x = (case x of None \<Rightarrow> False | Some s \<Rightarrow> s \<noteq> [])"

definition mk_ctx :: "string \<Rightarrow> string \<Rightarrow> tool_context" where
  "mk_ctx message customer_id =
     [(''last_user_message'', message), (''customer_id'', customer_id)]"

text \<open>
  The two statements
  \<^verbatim>\<open>response_metadata = model_settings.metadata or {}\<close> and
  \<^verbatim>\<open>response_metadata["customer_id"] = customer_id\<close>.
  When the caller's metadata is a non-empty dictionary, \<^verbatim>\<open>or\<close> yields that very object and
  the assignment writes into it; when it is \<^verbatim>\<open>None\<close> or empty, a new dictionary is written
  and the caller's settings stay as they are. The result is the response metadata and the
  caller's settings after the assignment.
\<close>

definition bind_response_metadata :: "ModelSettings \<Rightarrow> string \<Rightarrow> pydict \<times> ModelSettings" where
  "bind_response_metadata ms customer_id =
     (case metadata ms of
        None \<Rightarrow> (dict_set [] ''customer_id'' (PStr customer_id), ms)
      | Some d \<Rightarrow>
          if d = [] then (dict_set [] ''customer_id'' (PStr customer_id), ms)
          else (let d' = dict_set d ''customer_id'' (PStr customer_id)
                in (d', ms\<lparr>metadata := Some d'\<rparr>)))"

definition reason_negative :: string where
  "reason_negative =
     ''Detected negative sentiment or offensive language. Human empathy required.''"

definition reason_tool_unusable :: string where
  "reason_tool_unusable =
     ''Order tool not available or order ID missing; requires human assistance.''"

definition reason_complex :: string where
  "reason_complex = ''Complex or ambiguous request.''"

definition ask_order_id :: string where
  "ask_order_id = ''Could you share your order ID (e.g., ORD-1001) so I can check the status?''"

definition default_help :: string where
  "default_help =
     ''I can help with order tracking (share your order ID like ORD-1001) '' @
     ''or answer policies like shipping time, warranty, and returns.''"

section \<open>Routing\<close>

text \<open>
  \<^verbatim>\<open>handle_user_message\<close>, with the caller's settings threaded through: the second
  component of the result is the caller's \<^verbatim>\<open>ModelSettings\<close> object after the call.
\<close>

definition handle_user_message ::
  "string \<Rightarrow> string \<Rightarrow> ModelSettings \<Rightarrow> outcome \<times> ModelSettings" where
  "handle_user_message message customer_id model_settings =
     (let negative = is_negative_or_offensive message;
          order_intent = is_order_intent message;
          order_id = extract_order_id message
      in if negative
         then (Handoff HumanAgent reason_negative (mk_ctx message customer_id), model_settings)
         else
           let faq_answer = match_faq message
           in if truthy faq_answer \<and> \<not> order_intent
              then (Reply (the faq_answer), model_settings)
              else
                let ctx = mk_ctx message customer_id;
                    (response_metadata, ms') = bind_response_metadata model_settings customer_id
                in if order_intent
                   then
                     if tool_choice model_settings = ''required''
                     then
                       if order_tool_enabled ctx \<and> truthy order_id
                       then (AgentRun (''Fetch the status for '' @ the order_id @ ''.'') ctx
                               ''required'' response_metadata, ms')
                       else (Handoff HumanAgent reason_tool_unusable
                               (mk_ctx message customer_id), ms')
                     else
                       if truthy order_id
                       then (AgentRun (''User asks to track order '' @ the order_id @
                                 ''. Use the tool if available.'') ctx
                               ''auto'' response_metadata, ms')
                       else (Reply ask_order_id, ms')
                   else
                     if 40 < length (py_split message)
                        \<or> py_in ''complicated'' (lower message)
                        \<or> py_in ''legal'' (lower message)
                     then (Handoff HumanAgent reason_complex (mk_ctx message customer_id), ms')
                     else (Reply default_help, ms'))"

section \<open>Auxiliary predicates for the proofs\<close>



section \<open>Basic facts\<close>

lemma truthy_simps: "truthy None = False" "truthy (Some s) = (s \<noteq> [])"
  by (simp_all add: truthy_def)

lemma order_tool_enabled_mk_ctx:
  "order_tool_enabled (mk_ctx message cid) = is_order_intent message"
  by (simp add: order_tool_enabled_def mk_ctx_def ctx_get_def)

lemma extract_order_id_nonempty: "extract_order_id text = Some a \<Longrightarrow> a \<noteq> []"
  by (auto simp add: extract_order_id_def split: option.splits)




subsection \<open>Metadata\<close>

lemma map_of_dict_set: "map_of (dict_set d k v) k = Some v"
  by (induction d k v rule: dict_set.induct) auto

lemma dict_set_idem: "dict_set (dict_set d k v) k v = dict_set d k v"
  by (induction d k v rule: dict_set.induct) auto

lemma dict_set_not_Nil: "dict_set d k v \<noteq> []"
  by (cases d) (auto split: if_splits)

lemma bind_response_metadata_tool_choice:
  "bind_response_metadata (ms\<lparr>tool_choice := t\<rparr>) cid =
     (fst (bind_response_metadata ms cid),
      (snd (bind_response_metadata ms cid))\<lparr>tool_choice := t\<rparr>)"
  by (cases ms) (simp add: bind_response_metadata_def Let_def split: option.splits)

lemma tool_choice_bind:
  "tool_choice (snd (bind_response_metadata ms cid)) = tool_choice ms"
  by (simp add: bind_response_metadata_def Let_def split: option.splits)

text \<open>Once the customer id is written, writing it again changes nothing.\<close>

lemma bind_twice:
  "bind_response_metadata (snd (bind_response_metadata ms cid)) cid =
     bind_response_metadata ms cid"
  by (cases ms)
     (auto simp add: bind_response_metadata_def Let_def dict_set_idem dict_set_not_Nil
        split: option.splits)

text \<open>The metadata passed to the agent always holds the call's customer id.\<close>

lemma agent_run_metadata_customer_id:
  "fst (handle_user_message message cid ms) = AgentRun p ctx tc md \<Longrightarrow>
     map_of md ''customer_id'' = Some (PStr cid)"
  by (auto simp add: handle_user_message_def bind_response_metadata_def Let_def map_of_dict_set
      split: if_splits option.splits prod.splits)

subsection \<open>The FAQ loop\<close>

lemma faq_loop_find:
  "faq_loop tbl t = map_option snd (find (\<lambda>kv. py_in (fst kv) t) tbl)"
  by (induction tbl t rule: faq_loop.induct) auto

lemma FAQS_answers_nonempty: "kv \<in> set FAQS \<Longrightarrow> snd kv \<noteq> []"
  by (auto simp add: FAQS_def)

lemma find_in_set: "find P xs = Some x \<Longrightarrow> x \<in> set xs"
  by (induction xs) (auto split: if_splits)

lemma find_list_ex: "list_ex P xs \<Longrightarrow> \<exists>x. find P xs = Some x"
  by (induction xs) auto

subsection \<open>White space only\<close>

















subsection \<open>Searching the order pattern\<close>


























section \<open>Claims about routing\<close>

text \<open>
  Claim C1. Whenever the message is classified negative or offensive, the call returns a
  handoff to the human agent whose context holds the original message text and the
  customer id, whatever else the message contains (an FAQ topic, an order id) and whatever
  the settings are. The result is never a plain string or an agent call, and the caller's
  settings are left as they were.
\<close>

theorem negative_always_handoff:
  assumes "is_negative_or_offensive message"
  shows "handle_user_message message customer_id ms =
           (Handoff HumanAgent reason_negative
              [(''last_user_message'', message), (''customer_id'', customer_id)], ms)"
  using assms by (simp add: handle_user_message_def mk_ctx_def)

theorem negative_always_handoff_witness:
  "is_negative_or_offensive
     ''This is the worst service ever, I'm furious! Track my order ORD-1003.''
   \<and> handle_user_message
        ''This is the worst service ever, I'm furious! Track my order ORD-1003.''
        ''CUST-123'' \<lparr>tool_choice = ''auto'', metadata = Some [(''channel'', PStr ''web'')]\<rparr> =
      (Handoff HumanAgent reason_negative
         [(''last_user_message'',
           ''This is the worst service ever, I'm furious! Track my order ORD-1003.''),
          (''customer_id'', ''CUST-123'')],
       \<lparr>tool_choice = ''auto'', metadata = Some [(''channel'', PStr ''web'')]\<rparr>)"
proof -
  have h: "is_negative_or_offensive
     ''This is the worst service ever, I'm furious! Track my order ORD-1003.''"
    by code_simp
  show ?thesis using h negative_always_handoff [OF h] by simp
qed

text \<open>
  Claim C2, as amended. The claim asks for a configuration error when \<^verbatim>\<open>tool_choice\<close> is
  neither \<^verbatim>\<open>"auto"\<close> nor \<^verbatim>\<open>"required"\<close>. The code has no such check: the order branch tests
  \<^verbatim>\<open>tool_choice == "required"\<close> and treats every other value in its \<^verbatim>\<open>else\<close>. What holds
  is: for every call whose \<^verbatim>\<open>tool_choice\<close> is not \<^verbatim>\<open>"required"\<close>, the outcome and the
  metadata after the call are those of the same call with \<^verbatim>\<open>"auto"\<close>, and the caller's
  \<^verbatim>\<open>tool_choice\<close> field keeps its value.
\<close>

theorem not_required_same_as_auto:
  assumes "tool_choice ms \<noteq> ''required''"
  shows "fst (handle_user_message message customer_id ms) =
           fst (handle_user_message message customer_id (ms\<lparr>tool_choice := ''auto''\<rparr>))
         \<and> metadata (snd (handle_user_message message customer_id ms)) =
           metadata (snd (handle_user_message message customer_id (ms\<lparr>tool_choice := ''auto''\<rparr>)))
         \<and> tool_choice (snd (handle_user_message message customer_id ms)) = tool_choice ms"
  using assms
  by (simp add: handle_user_message_def bind_response_metadata_tool_choice tool_choice_bind
      Let_def split_beta)

theorem not_required_same_as_auto_witness:
  "tool_choice \<lparr>tool_choice = ''bogus'', metadata = None\<rparr> \<noteq> ''required''
   \<and> fst (handle_user_message ''I want the status of my order'' ''CUST-002''
            \<lparr>tool_choice = ''bogus'', metadata = None\<rparr>) = Reply ask_order_id"
proof -
  have h: "tool_choice \<lparr>tool_choice = ''bogus'', metadata = None\<rparr> \<noteq> ''required''"
    by simp
  have a: "fst (handle_user_message ''I want the status of my order'' ''CUST-002''
            \<lparr>tool_choice = ''auto'', metadata = None\<rparr>) = Reply ask_order_id"
    by code_simp
  show ?thesis
    using h a
      not_required_same_as_auto [OF h, of "''I want the status of my order''" "''CUST-002''"]
    by simp
qed

text \<open>
  The claim as stated fails: with the unknown value \<^verbatim>\<open>"bogus"\<close> and an order question
  without an id, the call evaluates the routing rules and returns the reply of the
  \<^verbatim>\<open>"auto"\<close> branch.
\<close>

theorem unknown_tool_choice_counterexample:
  "handle_user_message ''I want the status of my order'' ''CUST-002''
     \<lparr>tool_choice = ''bogus'', metadata = None\<rparr> =
   (Reply ask_order_id, \<lparr>tool_choice = ''bogus'', metadata = None\<rparr>)"
  by code_simp

text \<open>
  Claim C3. The claim says that the caller's settings, metadata included, are the same
  after the call as before. The code binds \<^verbatim>\<open>response_metadata\<close> to the caller's own
  dictionary whenever that dictionary is non-empty and then assigns the customer id into
  it. The call of the source's fourth demo shows it: the caller passes
  \<^verbatim>\<open>{"channel": "web"}\<close> and holds
  \<^verbatim>\<open>{"channel": "web", "customer_id": "CUST-002"}\<close> afterwards.
\<close>

theorem caller_metadata_mutated:
  "handle_user_message ''I want the status of my order'' ''CUST-002''
          \<lparr>tool_choice = ''auto'', metadata = Some [(''channel'', PStr ''web'')]\<rparr> =
   (Reply ask_order_id,
    \<lparr>tool_choice = ''auto'',
     metadata = Some [(''channel'', PStr ''web''), (''customer_id'', PStr ''CUST-002'')]\<rparr>)"
  by code_simp

text \<open>
  Claim C4. For a message that is not negative or offensive, has no order intent, and
  whose lower-cased text contains at least one key of the FAQ table, the call returns as a
  plain string the stored answer of the first entry of the table, in its declaration
  order, whose key occurs in the lower-cased text.
\<close>

theorem faq_first_match_answer:
  assumes "\<not> is_negative_or_offensive message" and "\<not> is_order_intent message"
    and "list_ex (\<lambda>kv. py_in (fst kv) (lower message)) FAQS"
  shows "\<exists>k v. find (\<lambda>kv. py_in (fst kv) (lower message)) FAQS = Some (k, v)
           \<and> handle_user_message message customer_id ms = (Reply v, ms)"
proof -
  obtain k v where f: "find (\<lambda>kv. py_in (fst kv) (lower message)) FAQS = Some (k, v)"
    using find_list_ex [OF assms(3)] by auto
  then have "v \<noteq> []"
    using find_in_set [OF f] FAQS_answers_nonempty by fastforce
  moreover have "match_faq message = Some v"
    by (simp add: match_faq_def faq_loop_find f)
  ultimately have "handle_user_message message customer_id ms = (Reply v, ms)"
    using assms(1,2) by (simp add: handle_user_message_def truthy_simps)
  with f show ?thesis by blast
qed

theorem faq_first_match_answer_witness:
  "\<not> is_negative_or_offensive ''What's your return policy?''
   \<and> \<not> is_order_intent ''What's your return policy?''
   \<and> list_ex (\<lambda>kv. py_in (fst kv) (lower ''What's your return policy?'')) FAQS
   \<and> handle_user_message ''What's your return policy?'' ''CUST-789''
         \<lparr>tool_choice = ''auto'', metadata = None\<rparr> =
       (Reply ''You can return unopened items within 30 days for a full refund.'',
        \<lparr>tool_choice = ''auto'', metadata = None\<rparr>)"
proof -
  have h1: "\<not> is_negative_or_offensive ''What's your return policy?''" by code_simp
  have h2: "\<not> is_order_intent ''What's your return policy?''" by code_simp
  have h3: "list_ex (\<lambda>kv. py_in (fst kv) (lower ''What's your return policy?'')) FAQS"
    by code_simp
  have f: "find (\<lambda>kv. py_in (fst kv) (lower ''What's your return policy?'')) FAQS =
             Some (''return policy'',
                   ''You can return unopened items within 30 days for a full refund.'')"
    by code_simp
  show ?thesis
    using h1 h2 h3
      faq_first_match_answer [OF h1 h2 h3, of "''CUST-789''"
        "\<lparr>tool_choice = ''auto'', metadata = None\<rparr>"]
    unfolding f by simp
qed

text \<open>
  Claim C5. For a message with order intent that is not negative or offensive and from
  which no order id is extracted, a call with \<^verbatim>\<open>tool_choice = "required"\<close> returns a
  handoff to the human agent, with the reason that the order tool is not usable or the id
  is missing and with the original message text and the customer id as context; it does
  not return the question for the order id.
\<close>

theorem required_without_id_handoff:
  assumes "is_order_intent message" and "\<not> is_negative_or_offensive message"
    and "extract_order_id message = None" and "tool_choice ms = ''required''"
  shows "fst (handle_user_message message customer_id ms) =
           Handoff HumanAgent reason_tool_unusable
             [(''last_user_message'', message), (''customer_id'', customer_id)]
         \<and> fst (handle_user_message message customer_id ms) \<noteq> Reply ask_order_id"
  using assms
  by (simp add: handle_user_message_def mk_ctx_def truthy_simps split: prod.splits)

theorem required_without_id_handoff_witness:
  "is_order_intent ''I want the status of my order''
   \<and> \<not> is_negative_or_offensive ''I want the status of my order''
   \<and> extract_order_id ''I want the status of my order'' = None
   \<and> fst (handle_user_message ''I want the status of my order'' ''CUST-002''
            \<lparr>tool_choice = ''required'', metadata = None\<rparr>) =
       Handoff HumanAgent reason_tool_unusable
         [(''last_user_message'', ''I want the status of my order''),
          (''customer_id'', ''CUST-002'')]"
proof -
  have h1: "is_order_intent ''I want the status of my order''" by code_simp
  have h2: "\<not> is_negative_or_offensive ''I want the status of my order''" by code_simp
  have h3: "extract_order_id ''I want the status of my order'' = None" by code_simp
  have h4: "tool_choice \<lparr>tool_choice = ''required'', metadata = None\<rparr> = ''required''"
    by simp
  show ?thesis
    using h1 h2 h3 required_without_id_handoff [OF h1 h2 h3 h4, of "''CUST-002''"]
    by simp
qed

text \<open>
  Claim C6. For a message with order intent that is not negative or offensive and from
  which no order id is extracted, a call with \<^verbatim>\<open>tool_choice = "auto"\<close> returns the fixed
  question for the order id as a plain string; it returns neither an agent call nor a
  handoff.
\<close>

theorem auto_without_id_asks:
  assumes "is_order_intent message" and "\<not> is_negative_or_offensive message"
    and "extract_order_id message = None" and "tool_choice ms = ''auto''"
  shows "fst (handle_user_message message customer_id ms) = Reply ask_order_id"
  using assms
  by (simp add: handle_user_message_def truthy_simps split: prod.splits)

theorem auto_without_id_asks_witness:
  "is_order_intent ''Where is my order?''
   \<and> \<not> is_negative_or_offensive ''Where is my order?''
   \<and> extract_order_id ''Where is my order?'' = None
   \<and> fst (handle_user_message ''Where is my order?'' ''CUST-007''
            \<lparr>tool_choice = ''auto'', metadata = Some [(''channel'', PStr ''web'')]\<rparr>) =
       Reply ask_order_id"
proof -
  have h1: "is_order_intent ''Where is my order?''" by code_simp
  have h2: "\<not> is_negative_or_offensive ''Where is my order?''" by code_simp
  have h3: "extract_order_id ''Where is my order?'' = None" by code_simp
  have h4: "tool_choice \<lparr>tool_choice = ''auto'', metadata = Some [(''channel'', PStr ''web'')]\<rparr>
              = ''auto''"
    by simp
  show ?thesis
    using h1 h2 h3 auto_without_id_asks [OF h1 h2 h3 h4, of "''CUST-007''"]
    by simp
qed






text \<open>
  Claim C9. The call is deterministic, also across the write into the caller's metadata:
  a second call with the same message text and customer id, on the settings as the first
  call left them, returns the same outcome as the first call (the same constructor with
  the same reason, context, prompt, \<^verbatim>\<open>tool_choice\<close> and metadata contents), and leaves the
  settings as the first call left them. The FAQ table and the patterns are constants of
  the program.
\<close>

theorem route_idempotent:
  "fst (handle_user_message message cid (snd (handle_user_message message cid ms))) =
     fst (handle_user_message message cid ms)
   \<and> snd (handle_user_message message cid (snd (handle_user_message message cid ms))) =
     snd (handle_user_message message cid ms)"
  by (simp add: handle_user_message_def Let_def split_beta bind_twice tool_choice_bind)

theorem route_idempotent_witness:
  "fst (handle_user_message ''Can you track my order ORD-1001?'' ''CUST-789''
     (snd (handle_user_message ''Can you track my order ORD-1001?'' ''CUST-789''
        \<lparr>tool_choice = ''auto'', metadata = Some [(''channel'', PStr ''web'')]\<rparr>))) =
   AgentRun ''User asks to track order ORD-1001. Use the tool if available.''
     [(''last_user_message'', ''Can you track my order ORD-1001?''),
      (''customer_id'', ''CUST-789'')]
     ''auto'' [(''channel'', PStr ''web''), (''customer_id'', PStr ''CUST-789'')]"
proof -
  have a: "fst (handle_user_message ''Can you track my order ORD-1001?'' ''CUST-789''
        \<lparr>tool_choice = ''auto'', metadata = Some [(''channel'', PStr ''web'')]\<rparr>) =
   AgentRun ''User asks to track order ORD-1001. Use the tool if available.''
     [(''last_user_message'', ''Can you track my order ORD-1001?''),
      (''customer_id'', ''CUST-789'')]
     ''auto'' [(''channel'', PStr ''web''), (''customer_id'', PStr ''CUST-789'')]"
    by code_simp
  show ?thesis
    using route_idempotent [of "''Can you track my order ORD-1001?''" "''CUST-789''"
        "\<lparr>tool_choice = ''auto'', metadata = Some [(''channel'', PStr ''web'')]\<rparr>"]
    by (simp only: a)
qed

text \<open>
  Claim C10. The gate of the order tool, on the context built from the message, equals
  \<^verbatim>\<open>is_order_intent\<close> of that message; on any context it reads only the
  \<^verbatim>\<open>last_user_message\<close> entry, with the empty string when the entry is absent. So in the
  order branch the gate holds, and with \<^verbatim>\<open>tool_choice = "required"\<close> the outcome is the
  handoff exactly when no order id was extracted, and the forced agent call otherwise.
\<close>

theorem gate_is_order_intent:
  "order_tool_enabled (mk_ctx message cid) = is_order_intent message
   \<and> order_tool_enabled ctx = is_order_intent (ctx_get ctx ''last_user_message'' [])
   \<and> (\<not> is_negative_or_offensive message \<and> is_order_intent message
        \<and> tool_choice ms = ''required'' \<longrightarrow>
       order_tool_enabled (mk_ctx message cid)
       \<and> fst (handle_user_message message cid ms) =
           (case extract_order_id message of
              None \<Rightarrow> Handoff HumanAgent reason_tool_unusable (mk_ctx message cid)
            | Some oid \<Rightarrow> AgentRun (''Fetch the status for '' @ oid @ ''.'') (mk_ctx message cid)
                 ''required'' (fst (bind_response_metadata ms cid))))"
proof (intro conjI impI)
  show "order_tool_enabled (mk_ctx message cid) = is_order_intent message"
    by (rule order_tool_enabled_mk_ctx)
  show "order_tool_enabled ctx = is_order_intent (ctx_get ctx ''last_user_message'' [])"
    by (simp add: order_tool_enabled_def)
next
  assume a: "\<not> is_negative_or_offensive message \<and> is_order_intent message
        \<and> tool_choice ms = ''required''"
  then show "order_tool_enabled (mk_ctx message cid)"
    by (simp add: order_tool_enabled_mk_ctx)
  from a show "fst (handle_user_message message cid ms) =
           (case extract_order_id message of
              None \<Rightarrow> Handoff HumanAgent reason_tool_unusable (mk_ctx message cid)
            | Some oid \<Rightarrow> AgentRun (''Fetch the status for '' @ oid @ ''.'') (mk_ctx message cid)
                 ''required'' (fst (bind_response_metadata ms cid)))"
    by (cases "extract_order_id message")
       (simp_all add: handle_user_message_def order_tool_enabled_mk_ctx Let_def split_beta
          truthy_simps extract_order_id_nonempty)
qed

theorem gate_is_order_intent_witness:
  "is_order_intent ''Status for ORD-1002 please.''
   \<and> order_tool_enabled (mk_ctx ''Status for ORD-1002 please.'' ''CUST-001'')
   \<and> order_tool_enabled [(''customer_id'', ''CUST-001'')] = is_order_intent []
   \<and> fst (handle_user_message ''Status for ORD-1002 please.'' ''CUST-001''
            \<lparr>tool_choice = ''required'', metadata = Some [(''channel'', PStr ''mobile-app'')]\<rparr>) =
       AgentRun ''Fetch the status for ORD-1002.''
         (mk_ctx ''Status for ORD-1002 please.'' ''CUST-001'') ''required''
         [(''channel'', PStr ''mobile-app''), (''customer_id'', PStr ''CUST-001'')]"
proof -
  let ?ms = "\<lparr>tool_choice = ''required'', metadata = Some [(''channel'', PStr ''mobile-app'')]\<rparr>"
  have h1: "\<not> is_negative_or_offensive ''Status for ORD-1002 please.''" by code_simp
  have h2: "is_order_intent ''Status for ORD-1002 please.''" by code_simp
  have h3: "tool_choice ?ms = ''required''" by simp
  have e: "extract_order_id ''Status for ORD-1002 please.'' = Some ''ORD-1002''" by code_simp
  have b: "fst (bind_response_metadata ?ms ''CUST-001'') =
             [(''channel'', PStr ''mobile-app''), (''customer_id'', PStr ''CUST-001'')]"
    by code_simp
  have g: "ctx_get [(''customer_id'', ''CUST-001'')] ''last_user_message'' [] = []"
    by code_simp
  show ?thesis
    using h1 h2 h3
      gate_is_order_intent [of "''Status for ORD-1002 please.''" "''CUST-001''"
        "[(''customer_id'', ''CUST-001'')]" ?ms]
    by (simp add: e b g)
qed

end
